theory Spec2Isabelle
  imports Complex_Main "HOL-Library.Word" "HOL-Library.Multiset"
begin

section \<open>Numeric values of the data frames\<close>

text \<open>
  The columns of the pandas frames hold float64 values. A value is modelled as a finite number,
  the missing-value marker NaN, or one of the two infinities. Finite arithmetic is exact (no
  rounding, no overflow, no signed zero); the special values follow IEEE 754: NaN is contagious,
  \<open>inf - inf\<close>, \<open>0 * inf\<close>, \<open>0 / 0\<close> and \<open>inf / inf\<close> are NaN, a non-zero number divided by zero
  is an infinity, and every ordered comparison with NaN is false.
\<close>

datatype fval = Num real | NaN | PInf | NInf

fun fneg :: "fval \<Rightarrow> fval" where
  "fneg (Num a) = Num (- a)"
| "fneg NaN = NaN"
| "fneg PInf = NInf"
| "fneg NInf = PInf"

fun fadd :: "fval \<Rightarrow> fval \<Rightarrow> fval" where
  "fadd (Num a) (Num b) = Num (a + b)"
| "fadd NaN y = NaN"
| "fadd x NaN = NaN"
| "fadd PInf NInf = NaN"
| "fadd NInf PInf = NaN"
| "fadd PInf y = PInf"
| "fadd x PInf = PInf"
| "fadd NInf y = NInf"
| "fadd x NInf = NInf"

definition fsub :: "fval \<Rightarrow> fval \<Rightarrow> fval" where
  "fsub x y = fadd x (fneg y)"

fun fmul :: "fval \<Rightarrow> fval \<Rightarrow> fval" where
  "fmul (Num a) (Num b) = Num (a * b)"
| "fmul NaN y = NaN"
| "fmul x NaN = NaN"
| "fmul PInf (Num b) = (if b = 0 then NaN else if 0 < b then PInf else NInf)"
| "fmul NInf (Num b) = (if b = 0 then NaN else if 0 < b then NInf else PInf)"
| "fmul (Num a) PInf = (if a = 0 then NaN else if 0 < a then PInf else NInf)"
| "fmul (Num a) NInf = (if a = 0 then NaN else if 0 < a then NInf else PInf)"
| "fmul PInf PInf = PInf"
| "fmul NInf NInf = PInf"
| "fmul PInf NInf = NInf"
| "fmul NInf PInf = NInf"

fun fdiv :: "fval \<Rightarrow> fval \<Rightarrow> fval" where
  "fdiv (Num a) (Num b) =
     (if b \<noteq> 0 then Num (a / b) else if a = 0 then NaN else if 0 < a then PInf else NInf)"
| "fdiv NaN y = NaN"
| "fdiv x NaN = NaN"
| "fdiv (Num a) PInf = Num 0"
| "fdiv (Num a) NInf = Num 0"
| "fdiv PInf (Num b) = (if 0 \<le> b then PInf else NInf)"
| "fdiv NInf (Num b) = (if 0 \<le> b then NInf else PInf)"
| "fdiv PInf PInf = NaN"
| "fdiv PInf NInf = NaN"
| "fdiv NInf PInf = NaN"
| "fdiv NInf NInf = NaN"

text \<open>Python's \<open><\<close> on floats; \<open>a > b\<close> is \<open>flt b a\<close>.\<close>

fun flt :: "fval \<Rightarrow> fval \<Rightarrow> bool" where
  "flt (Num a) (Num b) = (a < b)"
| "flt NaN y = False"
| "flt x NaN = False"
| "flt NInf NInf = False"
| "flt NInf y = True"
| "flt PInf y = False"
| "flt x PInf = True"
| "flt x NInf = False"

definition fgt :: "fval \<Rightarrow> fval \<Rightarrow> bool" where
  "fgt x y = flt y x"

definition fle :: "fval \<Rightarrow> fval \<Rightarrow> bool" where
  "fle x y = (x \<noteq> NaN \<and> y \<noteq> NaN \<and> \<not> flt y x)"


fun fabs :: "fval \<Rightarrow> fval" where
  "fabs (Num a) = Num \<bar>a\<bar>"
| "fabs NaN = NaN"
| "fabs PInf = PInf"
| "fabs NInf = PInf"

text \<open>\<open>pd.isna\<close> on a float.\<close>

definition isna :: "fval \<Rightarrow> bool" where
  "isna x = (x = NaN)"


text \<open>Sum of a list of floats, left to right from zero.\<close>

definition fsum :: "fval list \<Rightarrow> fval" where
  "fsum xs = foldl fadd (Num 0) xs"


text \<open>Python's slice \<open>xs[a:b]\<close> for \<open>0 \<le> a\<close>.\<close>

definition slice :: "'a list \<Rightarrow> nat \<Rightarrow> nat \<Rightarrow> 'a list" where
  "slice xs a b = take (b - a) (drop a xs)"

section \<open>Rolling windows\<close>

text \<open>
  \<open>Series.rolling(window=w)\<close> uses a fixed window with \<open>min_periods = w\<close>. Before any
  aggregation pandas replaces infinities by NaN; NaN entries are not observations.
\<close>

fun prep_value :: "fval \<Rightarrow> real option" where
  "prep_value (Num a) = Some a"
| "prep_value NaN = None"
| "prep_value PInf = None"
| "prep_value NInf = None"

text \<open>Window bounds of the fixed-window indexer: \<open>[i + 1 - w, i + 1)\<close>, clipped at 0.\<close>

definition win_start :: "nat \<Rightarrow> nat \<Rightarrow> nat" where
  "win_start w i = (i + 1) - w"

definition win_end :: "nat \<Rightarrow> nat" where
  "win_end i = i + 1"

text \<open>
  The rolling mean keeps a running sum and a count of observations; each step removes the
  values that left the window and adds the ones that entered it.
\<close>

type_synonym mean_state = "real \<times> int"

fun add_mean :: "real option \<Rightarrow> mean_state \<Rightarrow> mean_state" where
  "add_mean None st = st"
| "add_mean (Some v) (sum_x, nobs) = (sum_x + v, nobs + 1)"

fun remove_mean :: "real option \<Rightarrow> mean_state \<Rightarrow> mean_state" where
  "remove_mean None st = st"
| "remove_mean (Some v) (sum_x, nobs) = (sum_x - v, nobs - 1)"

fun calc_mean :: "nat \<Rightarrow> mean_state \<Rightarrow> fval" where
  "calc_mean minp (sum_x, nobs) =
     (if int minp \<le> nobs \<and> 0 < nobs then Num (sum_x / real_of_int nobs) else NaN)"

fun roll_mean_loop :: "real option list \<Rightarrow> nat \<Rightarrow> nat \<Rightarrow> nat \<Rightarrow> mean_state \<Rightarrow> fval list" where
  "roll_mean_loop vals w i 0 st = []"
| "roll_mean_loop vals w i (Suc k) st =
     (let s = win_start w i; e = win_end i;
          st' = (if i = 0 \<or> win_end (i - 1) \<le> s
                 then fold add_mean (slice vals s e) (0, 0)
                 else fold add_mean (slice vals (win_end (i - 1)) e)
                        (fold remove_mean (slice vals (win_start w (i - 1)) s) st))
      in calc_mean w st' # roll_mean_loop vals w (Suc i) k st')"

definition roll_mean :: "nat \<Rightarrow> fval list \<Rightarrow> fval list" where
  "roll_mean w xs = roll_mean_loop (map prep_value xs) w 0 (length xs) (0, 0)"

text \<open>
  The rolling sample variance (\<open>ddof = 1\<close>), stated per window: the sum of squared deviations
  from the window mean over \<open>nobs - ddof\<close>, zero for a single observation, NaN when the window
  holds fewer than \<open>min_periods\<close> observations or not more than \<open>ddof\<close>. pandas updates the same
  quantity incrementally. \<open>Rolling.std\<close> is its square root, with negative variances mapped to 0.
\<close>

definition observations :: "real option list \<Rightarrow> real list" where
  "observations win = map the (filter (\<lambda>v. v \<noteq> None) win)"

definition ssqdm :: "real list \<Rightarrow> real" where
  "ssqdm obs = (let m = sum_list obs / real (length obs) in sum_list (map (\<lambda>x. (x - m) * (x - m)) obs))"

definition calc_var :: "nat \<Rightarrow> nat \<Rightarrow> real option list \<Rightarrow> fval" where
  "calc_var minp ddof win =
     (let obs = observations win; nobs = length obs
      in if minp \<le> nobs \<and> ddof < nobs
         then (if nobs = 1 then Num 0 else Num (ssqdm obs / (real nobs - real ddof)))
         else NaN)"

definition roll_var :: "nat \<Rightarrow> fval list \<Rightarrow> fval list" where
  "roll_var w xs =
     map (\<lambda>i. calc_var (max w 1) 1 (slice (map prep_value xs) (win_start w i) (win_end i)))
       [0..<length xs]"

fun zsqrt :: "fval \<Rightarrow> fval" where
  "zsqrt (Num a) = (if a < 0 then Num 0 else Num (sqrt a))"
| "zsqrt NaN = NaN"
| "zsqrt PInf = PInf"
| "zsqrt NInf = Num 0"

definition roll_std :: "nat \<Rightarrow> fval list \<Rightarrow> fval list" where
  "roll_std w xs = map zsqrt (roll_var w xs)"

section \<open>Exponentially weighted mean\<close>

text \<open>
  \<open>Series.ewm(span=w).mean()\<close> with the defaults \<open>adjust=True\<close>, \<open>ignore_na=False\<close>,
  \<open>min_periods=0\<close>: \<open>alpha = 2 / (w + 1)\<close>; the state is the current weighted mean (absent until
  the first observation), the weight of the history, and the number of observations.
\<close>

type_synonym ewm_state = "real option \<times> real \<times> nat"

fun ewm_step :: "real \<Rightarrow> real option \<Rightarrow> ewm_state \<Rightarrow> ewm_state" where
  "ewm_step alpha cur (None, old_wt, nobs) =
     (case cur of None \<Rightarrow> (None, old_wt, nobs) | Some c \<Rightarrow> (Some c, old_wt, nobs + 1))"
| "ewm_step alpha cur (Some weighted, old_wt, nobs) =
     (let old_wt1 = old_wt * (1 - alpha)
      in case cur of
           None \<Rightarrow> (Some weighted, old_wt1, nobs)
         | Some c \<Rightarrow>
             ((if weighted \<noteq> c then Some ((old_wt1 * weighted + c) / (old_wt1 + 1)) else Some weighted),
              old_wt1 + 1, nobs + 1))"

fun ewm_output :: "ewm_state \<Rightarrow> fval" where
  "ewm_output (weighted, old_wt, nobs) =
     (if 1 \<le> nobs then (case weighted of None \<Rightarrow> NaN | Some m \<Rightarrow> Num m) else NaN)"

fun ewm_loop :: "real \<Rightarrow> real option list \<Rightarrow> ewm_state \<Rightarrow> fval list" where
  "ewm_loop alpha [] st = []"
| "ewm_loop alpha (cur # rest) st =
     (let st' = ewm_step alpha cur st in ewm_output st' # ewm_loop alpha rest st')"

definition ewm_mean :: "nat \<Rightarrow> fval list \<Rightarrow> fval list" where
  "ewm_mean spn xs =
     (case map prep_value xs of
        [] \<Rightarrow> []
      | v0 # rest \<Rightarrow>
          (let st0 = (v0, 1, (if v0 = None then 0 else 1))
           in ewm_output st0 # ewm_loop (2 / (real spn + 1)) rest st0))"

section \<open>Series helpers\<close>

text \<open>\<open>Series.shift(1)\<close>, \<open>Series.diff()\<close>, \<open>Series.pct_change()\<close> and \<open>Series.tail(n)\<close>.
  \<open>pct_change\<close> is modelled on a series without gaps (filling missing values forward is the
  identity there).\<close>

definition shift :: "fval list \<Rightarrow> fval list" where
  "shift xs = take (length xs) (NaN # xs)"

definition diff :: "fval list \<Rightarrow> fval list" where
  "diff xs = map2 fsub xs (shift xs)"

definition pct_change :: "fval list \<Rightarrow> fval list" where
  "pct_change xs = map2 (\<lambda>x p. fsub (fdiv x p) (Num 1)) xs (shift xs)"

definition tail :: "nat \<Rightarrow> 'a list \<Rightarrow> 'a list" where
  "tail n xs = drop (length xs - n) xs"

section \<open>Data processor\<close>

text \<open>
  One row of a downloaded CSV file. Prices are floats; \<open>Volume\<close> is an int64 column, a 64-bit
  word read as a signed integer where it enters float arithmetic.
\<close>

record bar =
  Date :: nat
  Open :: fval
  High :: fval
  Low :: fval
  Close :: fval
  Volume :: "64 word"
  Symbol :: string

definition vol_f :: "64 word \<Rightarrow> fval" where
  "vol_f v = Num (real_of_int (sint v))"

definition calculate_sma :: "bar list \<Rightarrow> nat \<Rightarrow> fval list" where
  "calculate_sma data window = roll_mean window (map Close data)"

definition calculate_ema :: "bar list \<Rightarrow> nat \<Rightarrow> fval list" where
  "calculate_ema data window = ewm_mean window (map Close data)"

definition calculate_rsi :: "bar list \<Rightarrow> nat \<Rightarrow> fval list" where
  "calculate_rsi data window =
     (let delta = diff (map Close data);
          gain = roll_mean window (map (\<lambda>d. if fgt d (Num 0) then d else Num 0) delta);
          loss = roll_mean window (map (\<lambda>d. fneg (if flt d (Num 0) then d else Num 0)) delta);
          rs = map2 fdiv gain loss
      in map (\<lambda>r. fsub (Num 100) (fdiv (Num 100) (fadd (Num 1) r))) rs)"

definition calculate_bollinger_bands ::
    "bar list \<Rightarrow> nat \<Rightarrow> real \<Rightarrow> fval list \<times> fval list \<times> fval list" where
  "calculate_bollinger_bands data window num_std =
     (let sma = calculate_sma data window;
          std = roll_std window (map Close data);
          upper_band = map2 (\<lambda>m s. fadd m (fmul s (Num num_std))) sma std;
          lower_band = map2 (\<lambda>m s. fsub m (fmul s (Num num_std))) sma std
      in (upper_band, sma, lower_band))"

definition calculate_macd ::
    "bar list \<Rightarrow> nat \<Rightarrow> nat \<Rightarrow> nat \<Rightarrow> fval list \<times> fval list \<times> fval list" where
  "calculate_macd data fast slow signal =
     (let ema_fast = calculate_ema data fast;
          ema_slow = calculate_ema data slow;
          macd_line = map2 fsub ema_fast ema_slow;
          signal_line = ewm_mean signal macd_line;
          histogram = map2 fsub macd_line signal_line
      in (macd_line, signal_line, histogram))"

definition calculate_volatility :: "bar list \<Rightarrow> nat \<Rightarrow> fval list" where
  "calculate_volatility data window =
     map (\<lambda>s. fmul s (Num (sqrt 252))) (roll_std window (pct_change (map Close data)))"

text \<open>\<open>ndarray.cumsum\<close>: running sums in the element type (int64 wraps around).\<close>

fun cumsum_from :: "'a::monoid_add \<Rightarrow> 'a list \<Rightarrow> 'a list" where
  "cumsum_from acc [] = []"
| "cumsum_from acc (x # xs) = (acc + x) # cumsum_from (acc + x) xs"

definition cumsum :: "'a::monoid_add list \<Rightarrow> 'a list" where
  "cumsum xs = cumsum_from 0 xs"

text \<open>The nested \<open>np.where\<close> of the On-Balance Volume, for one bar: current close, shifted
  (previous) close, volume.\<close>

definition obv_flow :: "fval \<Rightarrow> fval \<Rightarrow> 64 word \<Rightarrow> 64 word" where
  "obv_flow c p v = (if fgt c p then v else if flt c p then - v else 0)"

definition calculate_volume_indicators :: "bar list \<Rightarrow> fval list \<times> fval list \<times> 64 word list" where
  "calculate_volume_indicators data =
     (let vol_ma = roll_mean 20 (map (vol_f \<circ> Volume) data);
          vol_ratio = map2 fdiv (map (vol_f \<circ> Volume) data) vol_ma;
          obv = cumsum (map (\<lambda>(c, p, v). obv_flow c p v)
                  (zip (map Close data) (zip (shift (map Close data)) (map Volume data))))
      in (vol_ma, vol_ratio, obv))"

text \<open>A row of the processed frame: the bar and its indicator columns.\<close>

record row = bar +
  SMA_20 :: fval
  SMA_50 :: fval
  EMA_20 :: fval
  RSI :: fval
  BB_Upper :: fval
  BB_Middle :: fval
  BB_Lower :: fval
  MACD :: fval
  MACD_Signal :: fval
  MACD_Histogram :: fval
  Volatility :: fval
  Volume_MA :: fval
  Volume_Ratio :: fval
  OBV :: "64 word"
  Daily_Return :: fval
  Price_Change :: fval
  Price_Change_Pct :: fval
  HL_Spread :: fval
  HL_Spread_Pct :: fval

text \<open>
  A data file either makes \<open>pd.read_csv\<close> or \<open>pd.to_datetime\<close> raise (an empty or malformed
  file), or parses into a frame of bars, possibly one with a header and no rows.
\<close>

datatype csv_file = Unreadable | Frame "bar list"

datatype py_error = IndexError

definition add_indicators :: "bar list \<Rightarrow> row list" where
  "add_indicators data =
     (let sma_20 = calculate_sma data 20;
          sma_50 = calculate_sma data 50;
          ema_20 = calculate_ema data 20;
          rsi = calculate_rsi data 14;
          (bb_upper, bb_middle, bb_lower) = calculate_bollinger_bands data 20 2;
          (macd, signal, histogram) = calculate_macd data 12 26 9;
          volatility = calculate_volatility data 20;
          (vol_ma, vol_ratio, obv) = calculate_volume_indicators data;
          daily_return = pct_change (map Close data)
      in map (\<lambda>i. let b = data ! i in
            bar.extend b (row.fields (sma_20 ! i) (sma_50 ! i) (ema_20 ! i) (rsi ! i)
              (bb_upper ! i) (bb_middle ! i) (bb_lower ! i)
              (macd ! i) (signal ! i) (histogram ! i)
              (volatility ! i) (vol_ma ! i) (vol_ratio ! i) (obv ! i)
              (daily_return ! i)
              (fsub (Close b) (Open b))
              (fmul (fdiv (fsub (Close b) (Open b)) (Open b)) (Num 100))
              (fsub (High b) (Low b))
              (fmul (fdiv (fsub (High b) (Low b)) (Close b)) (Num 100))))
          [0..<length data])"

text \<open>\<open>process_symbol_data\<close>: any exception inside is caught and \<open>None\<close> is returned.\<close>

definition process_symbol_data :: "string \<Rightarrow> csv_file \<Rightarrow> row list option" where
  "process_symbol_data symbol data_file =
     (case data_file of
        Unreadable \<Rightarrow> None
      | Frame bars \<Rightarrow> Some (add_indicators (sort_key Date bars)))"

definition calculate_bb_position :: "row \<Rightarrow> string" where
  "calculate_bb_position r =
     (if isna (BB_Upper r) \<or> isna (BB_Lower r) then ''N/A''
      else let bb_width = fsub (BB_Upper r) (BB_Lower r) in
        if bb_width = Num 0 then ''N/A''
        else let position = fdiv (fsub (Close r) (BB_Lower r)) bb_width in
          if fgt position (Num (8 / 10)) then ''Upper''
          else if flt position (Num (2 / 10)) then ''Lower''
          else ''Middle'')"

definition get_macd_signal :: "row \<Rightarrow> string" where
  "get_macd_signal r =
     (if isna (MACD r) \<or> isna (MACD_Signal r) then ''N/A''
      else if fgt (MACD r) (MACD_Signal r) then ''Bullish''
      else ''Bearish'')"

record summary_stats =
  st_symbol :: string
  st_date :: nat
  st_close_price :: fval
  st_daily_return :: fval
  st_volume :: "64 word"
  st_volume_ratio :: fval
  st_rsi :: fval
  st_sma_20 :: fval
  st_sma_50 :: fval
  st_volatility :: fval
  st_bb_position :: string
  st_macd_signal :: string

text \<open>\<open>data.iloc[-1]\<close> raises \<open>IndexError\<close> on a frame without rows.\<close>

definition generate_summary_stats :: "row list \<Rightarrow> string \<Rightarrow> py_error + summary_stats" where
  "generate_summary_stats data symbol =
     (case data of
        [] \<Rightarrow> Inl IndexError
      | _ \<Rightarrow>
         (let latest = last data in
          Inr \<lparr> st_symbol = symbol, st_date = Date latest, st_close_price = Close latest,
                st_daily_return = Daily_Return latest, st_volume = Volume latest,
                st_volume_ratio = Volume_Ratio latest, st_rsi = RSI latest,
                st_sma_20 = SMA_20 latest, st_sma_50 = SMA_50 latest,
                st_volatility = Volatility latest,
                st_bb_position = calculate_bb_position latest,
                st_macd_signal = get_macd_signal latest \<rparr>))"

text \<open>The symbol of a data file: the file name up to its first underscore, or the name with
  every \<open>.csv\<close> removed when it has no underscore.\<close>

function remove_csv :: "string \<Rightarrow> string" where
  "remove_csv [] = []"
| "remove_csv (c # cs) =
     (if take 4 (c # cs) = ''.csv'' then remove_csv (drop 3 cs) else c # remove_csv cs)"
  by pat_completeness auto
termination
  by (relation "measure length") auto

definition symbol_of :: "string \<Rightarrow> string" where
  "symbol_of filename =
     (if CHR ''_'' \<in> set filename then takeWhile (\<lambda>c. c \<noteq> CHR ''_'') filename
      else remove_csv filename)"

text \<open>
  \<open>process_all_data\<close> over the data files found (name and contents), in the order of the
  listing. Saving the processed frame only writes a file and catches its own errors. An
  exception of \<open>generate_summary_stats\<close> is not caught: it ends the run.
\<close>

fun process_files :: "(string \<times> csv_file) list \<Rightarrow> summary_stats list \<Rightarrow> py_error + summary_stats list" where
  "process_files [] summaries = Inr summaries"
| "process_files ((filename, data_file) # rest) summaries =
     (let symbol = symbol_of filename in
      case process_symbol_data symbol data_file of
        None \<Rightarrow> process_files rest summaries
      | Some processed_data \<Rightarrow>
          (case generate_summary_stats processed_data symbol of
             Inl e \<Rightarrow> Inl e
           | Inr summary \<Rightarrow> process_files rest (summaries @ [summary])))"

definition process_all_data :: "(string \<times> csv_file) list \<Rightarrow> py_error + summary_stats list" where
  "process_all_data data_files = (if data_files = [] then Inr [] else process_files data_files [])"

section \<open>Report generator\<close>

text \<open>
  The report generator reads the processed frames back. Its configuration is the \<open>alerts\<close>
  section of the YAML file; a missing key falls back to the default.
\<close>

record config =
  volume_multiplier :: "real option"
  price_change_threshold :: "real option"

definition cfg_get :: "real option \<Rightarrow> real \<Rightarrow> real" where
  "cfg_get v dflt = (case v of None \<Rightarrow> dflt | Some x \<Rightarrow> x)"

record symbol_info =
  si_symbol :: string
  si_price :: fval
  si_change :: fval
  si_volume :: "64 word"
  si_volume_ratio :: fval

text \<open>An alert; its message is \<open>"<symbol> moved <al_moved, two decimals>% today"\<close>.\<close>

record alert =
  al_symbol :: string
  al_type :: string
  al_moved :: fval
  al_severity :: string

record market_summary =
  ms_date :: string
  ms_total_symbols :: nat
  gainers :: "symbol_info list"
  losers :: "symbol_info list"
  high_volume :: "symbol_info list"
  alerts :: "alert list"

text \<open>
  Python's \<open>sorted\<close> is stable and compares keys with \<open><\<close> only. With \<open>reverse=True\<close> the
  list is reversed before and after sorting, so that equal keys keep their order.
\<close>

fun insort_py :: "('a \<Rightarrow> fval) \<Rightarrow> 'a \<Rightarrow> 'a list \<Rightarrow> 'a list" where
  "insort_py key x [] = [x]"
| "insort_py key x (y # ys) =
     (if flt (key y) (key x) then y # insort_py key x ys else x # y # ys)"

definition sorted_py :: "('a \<Rightarrow> fval) \<Rightarrow> bool \<Rightarrow> 'a list \<Rightarrow> 'a list" where
  "sorted_py key reverse xs =
     (if reverse then rev (foldr (insort_py key) (rev xs) []) else foldr (insort_py key) xs [])"

text \<open>The body of the loop of \<open>generate_market_summary\<close> for one entry of \<open>data_dict\<close>.\<close>

definition summary_step :: "config \<Rightarrow> string \<times> row list \<Rightarrow> market_summary \<Rightarrow> market_summary" where
  "summary_step cfg entry summary =
     (case entry of (symbol, data) \<Rightarrow>
      if data = [] then summary
      else let latest = last data in
        if isna (Daily_Return latest) \<or> isna (Close latest) then summary
        else
          let info = \<lparr> si_symbol = symbol, si_price = Close latest,
                       si_change = fmul (Daily_Return latest) (Num 100),
                       si_volume = Volume latest, si_volume_ratio = Volume_Ratio latest \<rparr>;
              s1 = (if fgt (Daily_Return latest) (Num (2 / 100))
                    then summary \<lparr> gainers := gainers summary @ [info] \<rparr>
                    else if flt (Daily_Return latest) (Num (- (2 / 100)))
                    then summary \<lparr> losers := losers summary @ [info] \<rparr>
                    else summary);
              s2 = (if \<not> isna (si_volume_ratio info) \<and>
                       fgt (si_volume_ratio info) (Num (cfg_get (volume_multiplier cfg) 2))
                    then s1 \<lparr> high_volume := high_volume s1 @ [info] \<rparr>
                    else s1);
              price_threshold = fdiv (Num (cfg_get (price_change_threshold cfg) 5)) (Num 100)
          in if fgt (fabs (Daily_Return latest)) price_threshold
             then s2 \<lparr> alerts := alerts s2 @
                    [\<lparr> al_symbol = symbol, al_type = ''price_change'',
                       al_moved = fmul (Daily_Return latest) (Num 100),
                       al_severity = (if fgt (fabs (Daily_Return latest)) (Num (1 / 10))
                                      then ''high'' else ''medium'') \<rparr>] \<rparr>
             else s2)"

text \<open>The summary after the loop, before the lists are sorted and cut.\<close>

definition collect_summary :: "config \<Rightarrow> string \<Rightarrow> (string \<times> row list) list \<Rightarrow> market_summary" where
  "collect_summary cfg today data_dict =
     fold (summary_step cfg) data_dict
       \<lparr> ms_date = today, ms_total_symbols = length data_dict,
         gainers = [], losers = [], high_volume = [], alerts = [] \<rparr>"

definition generate_market_summary :: "config \<Rightarrow> string \<Rightarrow> (string \<times> row list) list \<Rightarrow> market_summary" where
  "generate_market_summary cfg today data_dict =
     (let summary = collect_summary cfg today data_dict
      in summary \<lparr> gainers := take 10 (sorted_py si_change True (gainers summary)),
                   losers := take 10 (sorted_py si_change False (losers summary)),
                   high_volume := take 10 (sorted_py si_volume_ratio True (high_volume summary)) \<rparr>)"

text \<open>\<open>Series.mean()\<close> and \<open>Series.std()\<close> skip NaN entries; the standard deviation has
  \<open>ddof = 1\<close>.\<close>

fun fsqrt :: "fval \<Rightarrow> fval" where
  "fsqrt (Num a) = (if a < 0 then NaN else Num (sqrt a))"
| "fsqrt NaN = NaN"
| "fsqrt PInf = PInf"
| "fsqrt NInf = NaN"

definition series_mean :: "fval list \<Rightarrow> fval" where
  "series_mean xs =
     (let obs = filter (\<lambda>x. \<not> isna x) xs
      in if obs = [] then NaN else fdiv (fsum obs) (Num (real (length obs))))"

definition series_std :: "fval list \<Rightarrow> fval" where
  "series_std xs =
     (let obs = filter (\<lambda>x. \<not> isna x) xs; count = length obs
      in if count \<le> 1 then NaN
         else let avg = fdiv (fsum obs) (Num (real count));
                  sqr = fsum (map (\<lambda>x. fmul (fsub avg x) (fsub avg x)) obs)
              in fsqrt (fdiv sqr (Num (real count - 1))))"

text \<open>\<open>Series.quantile(q)\<close>: linear interpolation between the order statistics of the
  entries that are not NaN.\<close>

definition quantile :: "real \<Rightarrow> fval list \<Rightarrow> fval" where
  "quantile q xs =
     (let vals = foldr (insort_py (\<lambda>x. x)) (filter (\<lambda>x. \<not> isna x) xs) []
      in if vals = [] then NaN
         else let pos = q * (real (length vals) - 1);
                  lo = nat \<lfloor>pos\<rfloor>;
                  hi = min (lo + 1) (length vals - 1)
              in fadd (vals ! lo) (fmul (fsub (vals ! hi) (vals ! lo)) (Num (pos - real lo))))"

definition get_bb_position :: "row \<Rightarrow> string" where
  "get_bb_position r =
     (if isna (BB_Upper r) \<or> isna (BB_Lower r) then ''N/A''
      else if fgt (Close r) (BB_Upper r) then ''Above Upper Band (Overbought)''
      else if flt (Close r) (BB_Lower r) then ''Below Lower Band (Oversold)''
      else ''Within Bands (Normal)'')"

definition analyze_sma_trend :: "row \<Rightarrow> string" where
  "analyze_sma_trend r =
     (if isna (SMA_20 r) \<or> isna (SMA_50 r) then ''Insufficient data''
      else if fgt (Close r) (SMA_20 r) \<and> fgt (SMA_20 r) (SMA_50 r) then ''Strong Uptrend''
      else if fgt (Close r) (SMA_20 r) \<and> flt (SMA_20 r) (SMA_50 r) then ''Weak Uptrend''
      else if flt (Close r) (SMA_20 r) \<and> flt (SMA_20 r) (SMA_50 r) then ''Strong Downtrend''
      else ''Weak Downtrend'')"

definition find_support_resistance :: "row list \<Rightarrow> fval \<times> fval" where
  "find_support_resistance data =
     (if length data < 10 then (NaN, NaN)
      else (quantile (1 / 10) (map Low data), quantile (9 / 10) (map High data)))"

record analysis =
  an_symbol :: string
  an_current_price :: fval
  an_daily_change :: fval
  an_daily_change_abs :: fval
  an_volume :: "64 word"
  an_volume_change :: fval
  an_rsi :: fval
  an_sma_20 :: fval
  an_sma_50 :: fval
  an_bb_position :: string
  an_macd_signal :: fval
  an_volatility :: fval
  an_avg_return_7d :: fval
  an_avg_return_30d :: fval
  an_volatility_7d :: fval
  an_volatility_30d :: fval
  an_trend_sma :: string
  an_support_resistance :: "fval \<times> fval"

text \<open>The bar before the last one, or the last one itself when the frame has a single row.\<close>

definition prev_day :: "row list \<Rightarrow> row" where
  "prev_day data = (if 1 < length data then data ! (length data - 2) else last data)"

definition volume_change :: "row \<Rightarrow> row \<Rightarrow> fval" where
  "volume_change latest prev =
     (if 0 < sint (Volume prev)
      then fmul (fdiv (vol_f (Volume latest - Volume prev)) (vol_f (Volume prev))) (Num 100)
      else Num 0)"

definition generate_symbol_analysis :: "string \<Rightarrow> row list \<Rightarrow> analysis option" where
  "generate_symbol_analysis symbol data =
     (if data = [] then None
      else let latest = last data;
               prev = prev_day data;
               returns_30d = tail 30 (map Daily_Return data);
               returns_7d = tail 7 (map Daily_Return data)
           in Some \<lparr> an_symbol = symbol,
                an_current_price = Close latest,
                an_daily_change = fmul (Daily_Return latest) (Num 100),
                an_daily_change_abs = Price_Change latest,
                an_volume = Volume latest,
                an_volume_change = volume_change latest prev,
                an_rsi = RSI latest,
                an_sma_20 = SMA_20 latest,
                an_sma_50 = SMA_50 latest,
                an_bb_position = get_bb_position latest,
                an_macd_signal = MACD latest,
                an_volatility = Volatility latest,
                an_avg_return_7d = fmul (series_mean returns_7d) (Num 100),
                an_avg_return_30d = fmul (series_mean returns_30d) (Num 100),
                an_volatility_7d = fmul (series_std returns_7d) (Num 100),
                an_volatility_30d = fmul (series_std returns_30d) (Num 100),
                an_trend_sma = analyze_sma_trend latest,
                an_support_resistance = find_support_resistance (tail 20 data) \<rparr>)"

section \<open>Auxiliary notions for the proofs\<close>

text \<open>Sum and number of the observations of a window, and the state the rolling mean holds
  after its step for index \<open>i\<close>.\<close>

definition wsum :: "real option list \<Rightarrow> real" where
  "wsum xs = sum_list (map (\<lambda>v. case v of None \<Rightarrow> 0 | Some r \<Rightarrow> r) xs)"

definition wcnt :: "real option list \<Rightarrow> int" where
  "wcnt xs = int (length (filter (\<lambda>v. v \<noteq> None) xs))"

definition win_state :: "real option list \<Rightarrow> nat \<Rightarrow> nat \<Rightarrow> mean_state" where
  "win_state vals w i =
     (wsum (slice vals (win_start w i) (win_end i)), wcnt (slice vals (win_start w i) (win_end i)))"

text \<open>What one entry of \<open>data_dict\<close> contributes to the summary: whether it passes the two
  guards of the loop, the record appended for it, and the tests of the three lists.\<close>

definition has_snapshot :: "row list \<Rightarrow> bool" where
  "has_snapshot data = (data \<noteq> [] \<and> \<not> isna (Daily_Return (last data)) \<and> \<not> isna (Close (last data)))"

definition mk_info :: "string \<times> row list \<Rightarrow> symbol_info" where
  "mk_info entry =
     \<lparr> si_symbol = fst entry, si_price = Close (last (snd entry)),
       si_change = fmul (Daily_Return (last (snd entry))) (Num 100),
       si_volume = Volume (last (snd entry)), si_volume_ratio = Volume_Ratio (last (snd entry)) \<rparr>"

definition is_gainer :: "string \<times> row list \<Rightarrow> bool" where
  "is_gainer entry = (has_snapshot (snd entry) \<and> fgt (Daily_Return (last (snd entry))) (Num (2 / 100)))"

definition is_loser :: "string \<times> row list \<Rightarrow> bool" where
  "is_loser entry = (has_snapshot (snd entry) \<and> flt (Daily_Return (last (snd entry))) (Num (- (2 / 100))))"

definition is_high_volume :: "config \<Rightarrow> string \<times> row list \<Rightarrow> bool" where
  "is_high_volume cfg entry =
     (has_snapshot (snd entry) \<and> \<not> isna (Volume_Ratio (last (snd entry))) \<and>
      fgt (Volume_Ratio (last (snd entry))) (Num (cfg_get (volume_multiplier cfg) 2)))"

text \<open>The two series the RSI averages, and the RSI of a mean gain and a mean loss.\<close>

definition gain_series :: "bar list \<Rightarrow> fval list" where
  "gain_series data = map (\<lambda>d. if fgt d (Num 0) then d else Num 0) (diff (map Close data))"

definition loss_series :: "bar list \<Rightarrow> fval list" where
  "loss_series data = map (\<lambda>d. fneg (if flt d (Num 0) then d else Num 0)) (diff (map Close data))"

definition rsi_value :: "fval \<Rightarrow> fval \<Rightarrow> fval" where
  "rsi_value g l = fsub (Num 100) (fdiv (Num 100) (fadd (Num 1) (fdiv g l)))"

text \<open>A bar with the given date, close and volume, for the examples.\<close>

definition mk_bar :: "nat \<Rightarrow> real \<Rightarrow> 64 word \<Rightarrow> bar" where
  "mk_bar d c v = \<lparr> Date = d, Open = Num c, High = Num c, Low = Num c, Close = Num c,
                    Volume = v, Symbol = ''TEST'' \<rparr>"

text \<open>A processed row with the given close, daily return and volume ratio, for the examples.\<close>

definition mk_row :: "fval \<Rightarrow> fval \<Rightarrow> fval \<Rightarrow> row" where
  "mk_row c r vr = bar.extend (mk_bar 1 0 10 \<lparr> Close := c \<rparr>)
     (row.fields NaN NaN NaN NaN NaN NaN NaN NaN NaN NaN NaN NaN vr 0 r NaN NaN NaN NaN)"


section \<open>The batch run on an empty series\<close>

lemma roll_mean_Nil: "roll_mean w [] = []"
  by (simp add: roll_mean_def)

lemma add_indicators_Nil: "add_indicators [] = []"
  by (simp add: add_indicators_def Let_def split: prod.splits)

lemma empty_frame_is_processed: "process_symbol_data symbol (Frame []) = Some []"
  by (simp add: process_symbol_data_def add_indicators_Nil)

lemma unreadable_file_is_skipped:
  "process_files ((filename, Unreadable) # rest) summaries = process_files rest summaries"
  by (simp add: process_symbol_data_def)

text \<open>
  C1. An empty input series should give no output and a non-fatal "no data" signal, the
  batch going on with the next symbol. On the code, a data file that parses into a frame
  without rows is processed into an empty frame, not into \<open>None\<close>; the summary of that frame
  raises \<open>IndexError\<close>, which nothing catches: the batch ends there, whatever files follow.
\<close>

theorem empty_series_aborts_batch:
  "process_all_data ((filename, Frame []) # rest) = Inl IndexError"
  by (simp add: process_all_data_def process_symbol_data_def add_indicators_Nil
      generate_summary_stats_def Let_def)

section \<open>The narrative of a one-bar series\<close>

text \<open>
  C10. For a one-bar series the analysis takes the last bar itself as the previous day's bar,
  and the reported volume change is exactly 0, whatever the bar's volume.
\<close>

theorem one_bar_volume_change:
  "\<exists>a. generate_symbol_analysis symbol [r] = Some a \<and> an_volume_change a = Num 0 \<and>
       prev_day [r] = r"
  by (simp add: generate_symbol_analysis_def Let_def prev_day_def volume_change_def vol_f_def
      del: of_int_sint)

section \<open>The rolling mean\<close>

text \<open>The incremental rolling mean holds, after the step for index \<open>i\<close>, the sum and the count of
  the observations of the window that ends at \<open>i\<close>.\<close>

lemma wsum_append: "wsum (xs @ ys) = wsum xs + wsum ys"
  by (simp add: wsum_def)

lemma wcnt_append: "wcnt (xs @ ys) = wcnt xs + wcnt ys"
  by (simp add: wcnt_def)

lemma fold_add_mean: "fold add_mean xs (s, n) = (s + wsum xs, n + wcnt xs)"
proof (induction xs arbitrary: s n)
  case Nil
  show ?case by (simp add: wsum_def wcnt_def)
next
  case (Cons x xs)
  show ?case by (cases x) (simp_all add: Cons.IH wsum_def wcnt_def)
qed

lemma fold_remove_mean: "fold remove_mean xs (s, n) = (s - wsum xs, n - wcnt xs)"
proof (induction xs arbitrary: s n)
  case Nil
  show ?case by (simp add: wsum_def wcnt_def)
next
  case (Cons x xs)
  show ?case by (cases x) (simp_all add: Cons.IH wsum_def wcnt_def)
qed

lemma slice_append: "a \<le> m \<Longrightarrow> m \<le> b \<Longrightarrow> slice xs a b = slice xs a m @ slice xs m b"
proof -
  assume am: "a \<le> m" and mb: "m \<le> b"
  have "take (b - a) (drop a xs) = take ((m - a) + (b - m)) (drop a xs)"
    using am mb by simp
  also have "\<dots> = take (m - a) (drop a xs) @ take (b - m) (drop (m - a) (drop a xs))"
    by (rule take_add)
  also have "drop (m - a) (drop a xs) = drop m xs"
    using am by simp
  finally show ?thesis by (simp add: slice_def)
qed

lemma slice_map: "slice (map f xs) a b = map f (slice xs a b)"
  by (simp add: slice_def take_map drop_map)

lemma length_slice: "b \<le> length xs \<Longrightarrow> length (slice xs a b) = b - a"
  by (simp add: slice_def)

lemma nth_slice: "b \<le> length xs \<Longrightarrow> k < b - a \<Longrightarrow> slice xs a b ! k = xs ! (a + k)"
  by (simp add: slice_def)

lemma win_step:
  assumes "0 < i" "\<not> win_end (i - 1) \<le> win_start w i"
  shows "fold add_mean (slice vals (win_end (i - 1)) (win_end i))
           (fold remove_mean (slice vals (win_start w (i - 1)) (win_start w i)) (win_state vals w (i - 1)))
         = win_state vals w i"
proof -
  let ?a = "win_start w (i - 1)" and ?a' = "win_start w i" and ?b = "win_end (i - 1)" and ?b' = "win_end i"
  have le1: "?a \<le> ?a'" and le2: "?a' \<le> ?b" and le3: "?b \<le> ?b'"
    using assms by (auto simp: win_start_def win_end_def)
  have old: "slice vals ?a ?b = slice vals ?a ?a' @ slice vals ?a' ?b"
    by (rule slice_append [OF le1 le2])
  have new: "slice vals ?a' ?b' = slice vals ?a' ?b @ slice vals ?b ?b'"
    by (rule slice_append [OF le2 le3])
  show ?thesis
    unfolding win_state_def fold_remove_mean fold_add_mean old new
    by (simp add: wsum_append wcnt_append)
qed

lemma win_setup:
  "fold add_mean (slice vals (win_start w i) (win_end i)) (0, 0) = win_state vals w i"
  by (simp add: fold_add_mean win_state_def)

lemma roll_mean_loop_length: "length (roll_mean_loop vals w i k st) = k"
  by (induction k arbitrary: i st) (simp_all add: Let_def)

lemma roll_mean_loop_nth:
  assumes "i = 0 \<or> st = win_state vals w (i - 1)" "j < k"
  shows "roll_mean_loop vals w i k st ! j = calc_mean w (win_state vals w (i + j))"
  using assms
proof (induction k arbitrary: i st j)
  case 0
  then show ?case by simp
next
  case (Suc k)
  define st' where "st' = (if i = 0 \<or> win_end (i - 1) \<le> win_start w i
                 then fold add_mean (slice vals (win_start w i) (win_end i)) (0, 0)
                 else fold add_mean (slice vals (win_end (i - 1)) (win_end i))
                        (fold remove_mean (slice vals (win_start w (i - 1)) (win_start w i)) st))"
  have st': "st' = win_state vals w i"
  proof (cases "i = 0 \<or> win_end (i - 1) \<le> win_start w i")
    case True
    then show ?thesis unfolding st'_def using win_setup [of vals w i] by simp
  next
    case False
    then have "0 < i" and st: "st = win_state vals w (i - 1)" using Suc.prems(1) by auto
    show ?thesis unfolding st'_def using False win_step [OF \<open>0 < i\<close>, of w vals] st by simp
  qed
  have unfold: "roll_mean_loop vals w i (Suc k) st = calc_mean w st' # roll_mean_loop vals w (Suc i) k st'"
    by (simp add: Let_def st'_def)
  show ?case
  proof (cases j)
    case 0
    then show ?thesis by (simp only: unfold st' nth_Cons_0 add_0_right)
  next
    case (Suc j')
    then have "j' < k" using Suc.prems(2) by simp
    have "roll_mean_loop vals w (Suc i) k st' ! j' = calc_mean w (win_state vals w (Suc i + j'))"
      by (rule Suc.IH) (simp_all add: st' \<open>j' < k\<close>)
    then show ?thesis by (simp only: unfold Suc nth_Cons_Suc add_Suc_shift add_Suc_right add_Suc)
  qed
qed

lemma length_roll_mean: "length (roll_mean w xs) = length xs"
  by (simp add: roll_mean_def roll_mean_loop_length)

lemma roll_mean_nth:
  assumes "i < length xs"
  shows "roll_mean w xs ! i =
           calc_mean w (wsum (map prep_value (slice xs (win_start w i) (win_end i))),
                        wcnt (map prep_value (slice xs (win_start w i) (win_end i))))"
proof -
  have "roll_mean w xs ! i = calc_mean w (win_state (map prep_value xs) w (0 + i))"
    unfolding roll_mean_def by (rule roll_mean_loop_nth) (simp_all add: assms)
  then show ?thesis by (simp add: win_state_def slice_map)
qed

lemma wsum_Nil: "wsum [] = 0"
  by (simp add: wsum_def)

lemma wcnt_Nil: "wcnt [] = 0"
  by (simp add: wcnt_def)

lemma wsum_Cons: "wsum (v # vs) = (case v of None \<Rightarrow> 0 | Some r \<Rightarrow> r) + wsum vs"
  by (simp add: wsum_def)









lemma slice_eq_map_nth: "b \<le> length xs \<Longrightarrow> slice xs a b = map (\<lambda>j. xs ! j) [a..<b]"
  by (rule nth_equalityI) (simp_all add: slice_def)



section \<open>The Relative Strength Index\<close>

lemma fadd_NaN_right: "fadd x NaN = NaN"
  by (cases x) simp_all

lemma fdiv_NaN_right: "fdiv x NaN = NaN"
  by (cases x) simp_all

lemma fsub_NaN_right: "fsub x NaN = NaN"
  by (simp add: fsub_def fadd_NaN_right)

lemma length_shift: "length (shift xs) = length xs"
  by (simp add: shift_def)

lemma shift_nth: "j < length xs \<Longrightarrow> shift xs ! j = (if j = 0 then NaN else xs ! (j - 1))"
  by (cases j) (simp_all add: shift_def)

lemma length_diff: "length (diff xs) = length xs"
  by (simp add: diff_def length_shift)

lemma diff_nth:
  "j < length xs \<Longrightarrow> diff xs ! j = (if j = 0 then NaN else fsub (xs ! j) (xs ! (j - 1)))"
  by (simp add: diff_def length_shift shift_nth fsub_NaN_right)

lemma length_gain_series: "length (gain_series data) = length data"
  by (simp add: gain_series_def length_diff)

lemma length_loss_series: "length (loss_series data) = length data"
  by (simp add: loss_series_def length_diff)

lemma calculate_rsi_nth:
  assumes "i < length data"
  shows "calculate_rsi data w ! i =
           rsi_value (roll_mean w (gain_series data) ! i) (roll_mean w (loss_series data) ! i)"
  using assms
  by (simp add: calculate_rsi_def Let_def rsi_value_def gain_series_def loss_series_def
      length_roll_mean length_diff)

lemma length_calculate_rsi: "length (calculate_rsi data w) = length data"
  by (simp add: calculate_rsi_def Let_def length_roll_mean length_diff)

text \<open>Gains and losses are never negative, so neither are their rolling means.\<close>

lemma gain_nonneg:
  "prep_value (if fgt d (Num 0) then d else Num 0) = Some r \<Longrightarrow> 0 \<le> r"
  by (cases d) (auto simp: fgt_def split: if_splits)

lemma loss_nonneg:
  "prep_value (fneg (if flt d (Num 0) then d else Num 0)) = Some r \<Longrightarrow> 0 \<le> r"
  by (cases d) (auto split: if_splits)

lemma wsum_nonneg: "\<forall>v\<in>set vs. \<forall>r. v = Some r \<longrightarrow> 0 \<le> r \<Longrightarrow> 0 \<le> wsum vs"
  by (induction vs) (auto simp: wsum_Nil wsum_Cons split: option.splits)

lemma set_slice_subset: "set (slice xs a b) \<subseteq> set xs"
  unfolding slice_def by (meson set_take_subset set_drop_subset subset_trans)

lemma roll_mean_nonneg:
  assumes "\<And>x r. x \<in> set xs \<Longrightarrow> prep_value x = Some r \<Longrightarrow> 0 \<le> r" and i: "i < length xs"
  shows "roll_mean w xs ! i = NaN \<or> (\<exists>r. roll_mean w xs ! i = Num r \<and> 0 \<le> r)"
proof -
  let ?win = "map prep_value (slice xs (win_start w i) (win_end i))"
  have "0 \<le> wsum ?win"
  proof (rule wsum_nonneg, intro ballI allI impI)
    fix v r assume "v \<in> set ?win" and "v = Some r"
    then obtain x where "x \<in> set (slice xs (win_start w i) (win_end i))" and "prep_value x = Some r"
      by auto
    then have "x \<in> set xs" using set_slice_subset [of xs "win_start w i" "win_end i"] by blast
    then show "0 \<le> r" using \<open>prep_value x = Some r\<close> by (rule assms(1))
  qed
  then show ?thesis
    unfolding roll_mean_nth [OF i] by (simp add: divide_nonneg_pos)
qed

lemma rsi_value_range:
  assumes "g = NaN \<or> (\<exists>a. g = Num a \<and> 0 \<le> a)" and "l = NaN \<or> (\<exists>b. l = Num b \<and> 0 \<le> b)"
  shows "rsi_value g l = NaN \<or> (\<exists>r. rsi_value g l = Num r \<and> 0 \<le> r \<and> r \<le> 100)"
proof -
  consider "g = NaN \<or> l = NaN" | a b where "g = Num a" "0 \<le> a" "l = Num b" "0 \<le> b"
    using assms by blast
  then show ?thesis
  proof cases
    case 1
    then show ?thesis by (auto simp: rsi_value_def fsub_def fadd_NaN_right fdiv_NaN_right)
  next
    case 2
    show ?thesis
    proof (cases "b = 0")
      case True
      then show ?thesis using 2 by (simp add: rsi_value_def fsub_def)
    next
      case False
      then have "0 \<le> a / b" using 2 by simp
      then have pos: "0 < 1 + a / b" by linarith
      have "100 / (1 + a / b) \<le> 100 / 1"
        using pos \<open>0 \<le> a / b\<close> by (intro divide_left_mono) simp_all
      moreover have "0 \<le> 100 / (1 + a / b)" using pos by simp
      ultimately show ?thesis using 2 False pos by (simp add: rsi_value_def fsub_def)
    qed
  qed
qed

lemma rsi_in_range:
  assumes "i < length data"
  shows "calculate_rsi data w ! i = NaN \<or>
         (\<exists>r. calculate_rsi data w ! i = Num r \<and> 0 \<le> r \<and> r \<le> 100)"
proof -
  have g: "roll_mean w (gain_series data) ! i = NaN \<or>
           (\<exists>r. roll_mean w (gain_series data) ! i = Num r \<and> 0 \<le> r)"
  proof (rule roll_mean_nonneg)
    fix x r assume "x \<in> set (gain_series data)" and "prep_value x = Some r"
    then obtain d where "prep_value (if fgt d (Num 0) then d else Num 0) = Some r"
      unfolding gain_series_def set_map by blast
    then show "0 \<le> r" by (rule gain_nonneg)
  qed (simp add: length_gain_series assms)
  have l: "roll_mean w (loss_series data) ! i = NaN \<or>
           (\<exists>r. roll_mean w (loss_series data) ! i = Num r \<and> 0 \<le> r)"
  proof (rule roll_mean_nonneg)
    fix x r assume "x \<in> set (loss_series data)" and "prep_value x = Some r"
    then obtain d where "prep_value (fneg (if flt d (Num 0) then d else Num 0)) = Some r"
      unfolding loss_series_def set_map by blast
    then show "0 \<le> r" by (rule loss_nonneg)
  qed (simp add: length_loss_series assms)
  show ?thesis
    unfolding calculate_rsi_nth [OF assms] by (rule rsi_value_range [OF g l])
qed

text \<open>A window of finite values.\<close>

lemma roll_mean_num_window:
  assumes i: "i < length xs" and w: "0 < w" "w \<le> i + 1"
    and num: "\<And>j. i + 1 - w \<le> j \<Longrightarrow> j \<le> i \<Longrightarrow> xs ! j = Num (f j)"
  shows "roll_mean w xs ! i = Num (sum_list (map f [i + 1 - w..<i + 1]) / real w)"
proof -
  have "slice xs (win_start w i) (win_end i) = map (\<lambda>j. xs ! j) [i + 1 - w..<i + 1]"
    using i by (simp add: win_start_def win_end_def slice_eq_map_nth)
  also have "\<dots> = map (\<lambda>j. Num (f j)) [i + 1 - w..<i + 1]"
    by (rule map_cong) (auto intro!: num)
  finally have win: "map prep_value (slice xs (win_start w i) (win_end i)) =
      map (\<lambda>j. Some (f j)) [i + 1 - w..<i + 1]" by (simp add: o_def)
  have s: "wsum (map (\<lambda>j. Some (f j)) [i + 1 - w..<i + 1]) = sum_list (map f [i + 1 - w..<i + 1])"
    by (simp add: wsum_def o_def)
  have c: "wcnt (map (\<lambda>j. Some (f j)) [i + 1 - w..<i + 1]) = int w"
    using w by (simp add: wcnt_def o_def)
  show ?thesis unfolding roll_mean_nth [OF i] win s c using w by simp
qed

text \<open>Gain and loss of a bar whose close and whose previous close are finite.\<close>

lemma gain_series_nth:
  assumes "j < length data" and "Close (data ! j) = Num q"
    and "0 < j \<Longrightarrow> Close (data ! (j - 1)) = Num p"
  shows "gain_series data ! j = Num (if j = 0 then 0 else max 0 (q - p))"
  using assms
  by (cases "j = 0") (simp_all add: gain_series_def length_diff diff_nth fsub_def fgt_def max_def)

lemma loss_series_nth:
  assumes "j < length data" and "Close (data ! j) = Num q"
    and "0 < j \<Longrightarrow> Close (data ! (j - 1)) = Num p"
  shows "loss_series data ! j = Num (if j = 0 then 0 else max 0 (p - q))"
  using assms
  by (cases "j = 0") (simp_all add: loss_series_def length_diff diff_nth fsub_def max_def)

lemma sum_list_pos:
  fixes xs :: "real list"
  shows "\<forall>x\<in>set xs. 0 \<le> x \<Longrightarrow> \<exists>x\<in>set xs. 0 < x \<Longrightarrow> 0 < sum_list xs"
proof (induction xs)
  case Nil
  then show ?case by simp
next
  case (Cons x xs)
  have nn: "0 \<le> sum_list xs" using Cons.prems(1) by (simp add: sum_list_nonneg)
  show ?case
  proof (cases "0 < x")
    case True
    then show ?thesis using nn by simp
  next
    case False
    then have "\<exists>y\<in>set xs. 0 < y" using Cons.prems(2) by auto
    then have "0 < sum_list xs" using Cons.IH Cons.prems(1) by simp
    then show ?thesis using Cons.prems(1) by simp
  qed
qed

text \<open>The RSI over a window of finite closes \<open>c\<close>.\<close>

lemma rsi_num_window:
  assumes i: "i < length data" and w: "0 < w" "w \<le> i + 1"
    and c: "\<And>j. i - w \<le> j \<Longrightarrow> j \<le> i \<Longrightarrow> Close (data ! j) = Num (c j)"
  shows "calculate_rsi data w ! i =
     rsi_value (Num (sum_list (map (\<lambda>j. if j = 0 then 0 else max 0 (c j - c (j - 1))) [i + 1 - w..<i + 1]) / real w))
               (Num (sum_list (map (\<lambda>j. if j = 0 then 0 else max 0 (c (j - 1) - c j)) [i + 1 - w..<i + 1]) / real w))"
proof -
  have g: "roll_mean w (gain_series data) ! i =
      Num (sum_list (map (\<lambda>j. if j = 0 then 0 else max 0 (c j - c (j - 1))) [i + 1 - w..<i + 1]) / real w)"
  proof (rule roll_mean_num_window [OF _ w])
    fix j assume j: "i + 1 - w \<le> j" "j \<le> i"
    show "gain_series data ! j = Num (if j = 0 then 0 else max 0 (c j - c (j - 1)))"
    proof (rule gain_series_nth)
      show "j < length data" using j i by simp
      show "Close (data ! j) = Num (c j)" using j by (intro c) simp_all
      show "0 < j \<Longrightarrow> Close (data ! (j - 1)) = Num (c (j - 1))" using j by (intro c) simp_all
    qed
  qed (simp add: length_gain_series i)
  have l: "roll_mean w (loss_series data) ! i =
      Num (sum_list (map (\<lambda>j. if j = 0 then 0 else max 0 (c (j - 1) - c j)) [i + 1 - w..<i + 1]) / real w)"
  proof (rule roll_mean_num_window [OF _ w])
    fix j assume j: "i + 1 - w \<le> j" "j \<le> i"
    show "loss_series data ! j = Num (if j = 0 then 0 else max 0 (c (j - 1) - c j))"
    proof (rule loss_series_nth)
      show "j < length data" using j i by simp
      show "Close (data ! j) = Num (c j)" using j by (intro c) simp_all
      show "0 < j \<Longrightarrow> Close (data ! (j - 1)) = Num (c (j - 1))" using j by (intro c) simp_all
    qed
  qed (simp add: length_loss_series i)
  show ?thesis unfolding calculate_rsi_nth [OF i] g l ..
qed

lemma rsi_value_flat: "rsi_value (Num 0) (Num 0) = NaN"
  by (simp add: rsi_value_def fsub_def)

lemma rsi_value_saturated: "0 < g \<Longrightarrow> rsi_value (Num g) (Num 0) = Num 100"
  by (simp add: rsi_value_def fsub_def)

text \<open>
  C9. When the 14 close-to-close changes that end at index \<open>i \<ge> 14\<close> are all zero (the 15 closes
  from \<open>i - 14\<close> to \<open>i\<close> are one finite price), mean gain and mean loss are both 0 and the RSI
  at \<open>i\<close> is the missing-value marker of \<open>0 / 0\<close>, not a number.
\<close>

theorem rsi_flat_window_undefined:
  assumes "14 \<le> i" and "i < length data"
    and "\<forall>j. i - 14 \<le> j \<and> j \<le> i \<longrightarrow> Close (data ! j) = Num c"
  shows "calculate_rsi data 14 ! i = NaN"
proof -
  have "calculate_rsi data 14 ! i =
     rsi_value (Num (sum_list (map (\<lambda>j. if j = 0 then 0 else max 0 (c - c)) [i + 1 - 14..<i + 1]) / real 14))
               (Num (sum_list (map (\<lambda>j. if j = 0 then 0 else max 0 (c - c)) [i + 1 - 14..<i + 1]) / real 14))"
    by (rule rsi_num_window [where c = "\<lambda>j. c"]) (use assms in simp_all)
  also have "(\<lambda>j::nat. if j = 0 then 0 else max 0 (c - c)) = (\<lambda>j. 0)"
    by (rule ext) simp
  also have "sum_list (map (\<lambda>j::nat. 0::real) [i + 1 - 14..<i + 1]) = 0"
    by (induction "[i + 1 - 14..<i + 1]") simp_all
  finally show ?thesis by (simp add: rsi_value_flat)
qed

theorem rsi_flat_window_undefined_witness:
  "calculate_rsi (map (\<lambda>d. mk_bar d 50 10) [0..<15]) 14 ! 14 = NaN"
  using rsi_flat_window_undefined [of 14 "map (\<lambda>d. mk_bar d 50 10) [0..<15]" 50]
  by (simp add: mk_bar_def)

text \<open>
  C6. At every index where the RSI(14) is defined (not NaN) its value is a number in the closed
  interval from 0 to 100. When the 14 changes of the trailing window are finite, none is a
  loss and at least one is a gain, the RSI is exactly 100.
\<close>

theorem rsi_bounded:
  assumes "i < length data"
  shows "(calculate_rsi data 14 ! i \<noteq> NaN \<longrightarrow>
            (\<exists>r. calculate_rsi data 14 ! i = Num r \<and> 0 \<le> r \<and> r \<le> 100)) \<and>
         (13 \<le> i \<and> (\<forall>j. i - 14 \<le> j \<and> j \<le> i \<longrightarrow> Close (data ! j) = Num (c j)) \<and>
            (\<forall>j. i - 13 \<le> j \<and> j \<le> i \<and> 0 < j \<longrightarrow> c (j - 1) \<le> c j) \<and>
            (\<exists>j. i - 13 \<le> j \<and> j \<le> i \<and> 0 < j \<and> c (j - 1) < c j)
          \<longrightarrow> calculate_rsi data 14 ! i = Num 100)"
proof (intro conjI impI)
  assume "calculate_rsi data 14 ! i \<noteq> NaN"
  then show "\<exists>r. calculate_rsi data 14 ! i = Num r \<and> 0 \<le> r \<and> r \<le> 100"
    using rsi_in_range [OF assms, of 14] by blast
next
  assume h: "13 \<le> i \<and> (\<forall>j. i - 14 \<le> j \<and> j \<le> i \<longrightarrow> Close (data ! j) = Num (c j)) \<and>
            (\<forall>j. i - 13 \<le> j \<and> j \<le> i \<and> 0 < j \<longrightarrow> c (j - 1) \<le> c j) \<and>
            (\<exists>j. i - 13 \<le> j \<and> j \<le> i \<and> 0 < j \<and> c (j - 1) < c j)"
  let ?g = "\<lambda>j. if j = 0 then 0 else max 0 (c j - c (j - 1))"
  let ?l = "\<lambda>j. if j = 0 then 0 else max 0 (c (j - 1) - c j)"
  let ?win = "[i + 1 - 14..<i + 1]"
  have rsi: "calculate_rsi data 14 ! i =
      rsi_value (Num (sum_list (map ?g ?win) / real 14)) (Num (sum_list (map ?l ?win) / real 14))"
    by (rule rsi_num_window) (use h assms in simp_all)
  have e1: "map ?l ?win = map (\<lambda>j. 0) ?win"
  proof (rule map_cong [OF refl])
    fix x assume "x \<in> set ?win"
    then have x: "i - 13 \<le> x" "x \<le> i" by auto
    show "?l x = 0"
    proof (cases "x = 0")
      case True
      then show ?thesis by simp
    next
      case False
      then have "i - 13 \<le> x \<and> x \<le> i \<and> 0 < x" using x by simp
      then have "c (x - 1) \<le> c x" using h by blast
      then show ?thesis using False by (simp add: max_def)
    qed
  qed
  have e2: "sum_list (map (\<lambda>j::nat. 0::real) ?win) = 0"
    by (induction ?win) simp_all
  have l0: "sum_list (map ?l ?win) = 0"
    unfolding e1 by (rule e2)
  obtain j where j: "i - 13 \<le> j" "j \<le> i" "0 < j" "c (j - 1) < c j" using h by blast
  have "0 < sum_list (map ?g ?win)"
  proof (rule sum_list_pos)
    show "\<forall>x\<in>set (map ?g ?win). 0 \<le> x" by auto
    have "j \<in> set ?win" using j by auto
    moreover have "0 < ?g j" using j by simp
    ultimately show "\<exists>x\<in>set (map ?g ?win). 0 < x" by (metis (no_types, lifting) image_eqI set_map)
  qed
  then show "calculate_rsi data 14 ! i = Num 100"
    unfolding rsi l0 by (simp add: rsi_value_saturated)
qed

theorem rsi_bounded_witness:
  "calculate_rsi (map (\<lambda>d. mk_bar d (100 + real d) 10) [0..<15]) 14 ! 14 = Num 100"
proof -
  have "\<exists>j::nat. 14 - 13 \<le> j \<and> j \<le> 14 \<and> 0 < j \<and> 100 + real (j - 1) < 100 + real j"
    by (rule exI [of _ 14]) simp
  then show ?thesis
    using rsi_bounded [of 14 "map (\<lambda>d. mk_bar d (100 + real d) 10) [0..<15]" "\<lambda>j. 100 + real j"]
    by (simp add: mk_bar_def)
qed

section \<open>On-Balance Volume\<close>

lemma length_cumsum_from: "length (cumsum_from a xs) = length xs"
  by (induction xs arbitrary: a) simp_all

lemma cumsum_from_nth_0: "xs \<noteq> [] \<Longrightarrow> cumsum_from a xs ! 0 = a + xs ! 0"
  by (cases xs) simp_all

lemma cumsum_from_nth_Suc:
  "Suc i < length xs \<Longrightarrow> cumsum_from a xs ! Suc i = cumsum_from a xs ! i + xs ! Suc i"
proof (induction xs arbitrary: a i)
  case Nil
  then show ?case by simp
next
  case (Cons x xs)
  show ?case
  proof (cases i)
    case 0
    then show ?thesis using Cons.prems by (simp add: cumsum_from_nth_0)
  next
    case (Suc k)
    then have "Suc k < length xs" using Cons.prems by simp
    then have "cumsum_from (a + x) xs ! Suc k = cumsum_from (a + x) xs ! k + xs ! Suc k"
      by (rule Cons.IH)
    then show ?thesis using Suc by simp
  qed
qed

lemma flt_NaN_right: "flt x NaN = False"
  by (cases x) simp_all

lemma obv_flow_NaN: "obv_flow c NaN v = 0"
  by (simp add: obv_flow_def fgt_def flt_NaN_right)

text \<open>
  C5. The OBV has one entry per bar; each entry after the first is the previous entry plus the
  bar's volume when the close rose, minus it when the close fell, and plus 0 when it is
  unchanged; the first entry is 0, the bar at index 0 having no previous close. The sums are
  int64 and wrap around.
\<close>

theorem obv_running_sum:
  "case calculate_volume_indicators data of (vol_ma, vol_ratio, obv) \<Rightarrow>
     length obv = length data \<and>
     (0 < length data \<longrightarrow> obv ! 0 = 0) \<and>
     (\<forall>i. 0 < i \<and> i < length data \<longrightarrow>
        obv ! i = obv ! (i - 1) +
          (if fgt (Close (data ! i)) (Close (data ! (i - 1))) then Volume (data ! i)
           else if flt (Close (data ! i)) (Close (data ! (i - 1))) then - Volume (data ! i)
           else 0))"
proof -
  define flows where "flows = map (\<lambda>(c, p, v). obv_flow c p v)
      (zip (map Close data) (zip (shift (map Close data)) (map Volume data)))"
  have len: "length flows = length data" by (simp add: flows_def length_shift)
  have nth: "flows ! i = obv_flow (Close (data ! i))
      (if i = 0 then NaN else Close (data ! (i - 1))) (Volume (data ! i))" if "i < length data" for i
    using that by (simp add: flows_def length_shift shift_nth)
  have obv: "calculate_volume_indicators data =
      (roll_mean 20 (map (vol_f \<circ> Volume) data),
       map2 fdiv (map (vol_f \<circ> Volume) data) (roll_mean 20 (map (vol_f \<circ> Volume) data)),
       cumsum_from 0 flows)"
    by (simp add: calculate_volume_indicators_def Let_def cumsum_def flows_def)
  have first: "cumsum_from 0 flows ! 0 = 0" if "0 < length data"
  proof -
    have "flows \<noteq> []" using that len by auto
    then have "cumsum_from 0 flows ! 0 = 0 + flows ! 0" by (rule cumsum_from_nth_0)
    then show ?thesis using nth [OF that] by (simp add: obv_flow_NaN)
  qed
  have step: "cumsum_from 0 flows ! i = cumsum_from 0 flows ! (i - 1) +
          (if fgt (Close (data ! i)) (Close (data ! (i - 1))) then Volume (data ! i)
           else if flt (Close (data ! i)) (Close (data ! (i - 1))) then - Volume (data ! i)
           else 0)" if pos: "0 < i" and lt: "i < length data" for i
  proof -
    from pos obtain k where k: "i = Suc k" using gr0_implies_Suc by blast
    have "Suc k < length flows" using lt k len by simp
    then have "cumsum_from 0 flows ! Suc k = cumsum_from 0 flows ! k + flows ! Suc k"
      by (rule cumsum_from_nth_Suc)
    then have "cumsum_from 0 flows ! i = cumsum_from 0 flows ! (i - 1) + flows ! i"
      unfolding k by (simp only: diff_Suc_1)
    moreover have "flows ! i = obv_flow (Close (data ! i)) (Close (data ! (i - 1))) (Volume (data ! i))"
      using nth [OF lt] pos by simp
    ultimately show ?thesis by (simp only: obv_flow_def)
  qed
  show ?thesis
    unfolding obv prod.case
  proof (intro conjI impI allI)
    show "length (cumsum_from 0 flows) = length data" by (simp add: length_cumsum_from len)
    show "cumsum_from 0 flows ! 0 = 0" if "0 < length data" using that by (rule first)
    show "cumsum_from 0 flows ! i = cumsum_from 0 flows ! (i - 1) +
          (if fgt (Close (data ! i)) (Close (data ! (i - 1))) then Volume (data ! i)
           else if flt (Close (data ! i)) (Close (data ! (i - 1))) then - Volume (data ! i)
           else 0)" if "0 < i \<and> i < length data" for i
      using that by (intro step) simp_all
  qed
qed

theorem obv_running_sum_witness:
  "case calculate_volume_indicators [mk_bar 1 100 10, mk_bar 2 102 20, mk_bar 3 99 30] of
     (vol_ma, vol_ratio, obv) \<Rightarrow> obv ! 0 = 0 \<and> obv ! 1 = 20 \<and> obv ! 2 = - 10"
proof -
  obtain vol_ma vol_ratio obv where
    c: "calculate_volume_indicators [mk_bar 1 100 10, mk_bar 2 102 20, mk_bar 3 99 30] = (vol_ma, vol_ratio, obv)"
    by (cases "calculate_volume_indicators [mk_bar 1 100 10, mk_bar 2 102 20, mk_bar 3 99 30]") auto
  have t: "length obv = 3 \<and> obv ! 0 = 0 \<and>
     (\<forall>i. 0 < i \<and> i < 3 \<longrightarrow>
        obv ! i = obv ! (i - 1) +
          (if fgt (Close ([mk_bar 1 100 10, mk_bar 2 102 20, mk_bar 3 99 30] ! i))
                  (Close ([mk_bar 1 100 10, mk_bar 2 102 20, mk_bar 3 99 30] ! (i - 1)))
           then Volume ([mk_bar 1 100 10, mk_bar 2 102 20, mk_bar 3 99 30] ! i)
           else if flt (Close ([mk_bar 1 100 10, mk_bar 2 102 20, mk_bar 3 99 30] ! i))
                       (Close ([mk_bar 1 100 10, mk_bar 2 102 20, mk_bar 3 99 30] ! (i - 1)))
           then - Volume ([mk_bar 1 100 10, mk_bar 2 102 20, mk_bar 3 99 30] ! i)
           else 0))"
    using obv_running_sum [of "[mk_bar 1 100 10, mk_bar 2 102 20, mk_bar 3 99 30]"] c by simp
  then have 0: "obv ! 0 = 0" by simp
  have 1: "obv ! 1 = 20" using t [THEN conjunct2, THEN conjunct2, THEN spec, of 1] 0
    by (simp add: mk_bar_def fgt_def)
  have 2: "obv ! 2 = - 10" using t [THEN conjunct2, THEN conjunct2, THEN spec, of 2] 1
    by (simp add: mk_bar_def fgt_def)
  show ?thesis using c 0 1 2 by simp
qed

section \<open>Bollinger Bands\<close>

lemma length_roll_std: "length (roll_std w xs) = length xs"
  by (simp add: roll_std_def roll_var_def)

lemma calc_var_cases: "calc_var minp ddof win = NaN \<or> (\<exists>a. calc_var minp ddof win = Num a)"
  by (simp add: calc_var_def Let_def)

lemma zsqrt_cases: "v = NaN \<or> (\<exists>a. v = Num a) \<Longrightarrow> zsqrt v = NaN \<or> (\<exists>s. zsqrt v = Num s \<and> 0 \<le> s)"
  by (cases v) auto

lemma roll_std_nonneg:
  assumes "i < length xs"
  shows "roll_std w xs ! i = NaN \<or> (\<exists>s. roll_std w xs ! i = Num s \<and> 0 \<le> s)"
  using assms by (simp add: roll_std_def roll_var_def zsqrt_cases calc_var_cases)

lemma calc_mean_cases: "calc_mean minp st = NaN \<or> (\<exists>m. calc_mean minp st = Num m)"
  by (cases st) simp

lemma roll_mean_cases:
  assumes "i < length xs"
  shows "roll_mean w xs ! i = NaN \<or> (\<exists>m. roll_mean w xs ! i = Num m)"
  unfolding roll_mean_nth [OF assms] by (rule calc_mean_cases)

lemma band_order:
  assumes "m = NaN \<or> (\<exists>a. m = Num a)" and "s = NaN \<or> (\<exists>b. s = Num b \<and> 0 \<le> b)"
    and "0 \<le> k"
    and "fadd m (fmul s (Num k)) \<noteq> NaN" and "m \<noteq> NaN" and "fsub m (fmul s (Num k)) \<noteq> NaN"
  shows "fle (fsub m (fmul s (Num k))) m \<and> fle m (fadd m (fmul s (Num k)))"
proof -
  obtain a where a: "m = Num a" using assms(1,5) by blast
  have "s \<noteq> NaN" using assms(4) a by auto
  then obtain b where b: "s = Num b" "0 \<le> b" using assms(2) by blast
  have "0 \<le> b * k" using b assms(3) by simp
  then show ?thesis using a b by (simp add: fle_def fsub_def)
qed

lemma observations_Some: "observations (map (\<lambda>j. Some (f j)) js) = map f js"
  by (simp add: observations_def o_def)

lemma roll_std_num_window:
  assumes i: "i < length xs" and w: "1 < w" "w \<le> i + 1"
    and num: "\<And>j. i + 1 - w \<le> j \<Longrightarrow> j \<le> i \<Longrightarrow> xs ! j = Num (f j)"
  shows "\<exists>s. roll_std w xs ! i = Num s"
proof -
  have "slice xs (win_start w i) (win_end i) = map (\<lambda>j. xs ! j) [i + 1 - w..<i + 1]"
    using i by (simp add: win_start_def win_end_def slice_eq_map_nth)
  also have "\<dots> = map (\<lambda>j. Num (f j)) [i + 1 - w..<i + 1]"
    by (rule map_cong) (auto intro!: num)
  finally have win: "slice (map prep_value xs) (win_start w i) (win_end i) =
      map (\<lambda>j. Some (f j)) [i + 1 - w..<i + 1]" by (simp add: slice_map o_def)
  have len: "length (map f [i + 1 - w..<i + 1]) = w" using w by simp
  have "\<exists>a. calc_var (max w 1) 1 (map (\<lambda>j. Some (f j)) [i + 1 - w..<i + 1]) = Num a"
    unfolding calc_var_def Let_def observations_Some len using w by simp
  then obtain a where "roll_var w xs ! i = Num a"
    using i by (auto simp: roll_var_def win)
  then show ?thesis using i by (simp add: roll_std_def roll_var_def)
qed

lemma bands_defined:
  assumes i: "i < length data" "19 \<le> i"
    and c: "\<And>j. i - 19 \<le> j \<Longrightarrow> j \<le> i \<Longrightarrow> Close (data ! j) = Num (c j)"
  shows "case calculate_bollinger_bands data 20 2 of (upper, middle, lower) \<Rightarrow>
           upper ! i \<noteq> NaN \<and> middle ! i \<noteq> NaN \<and> lower ! i \<noteq> NaN"
proof -
  have num: "map Close data ! j = Num (c j)" if "i + 1 - 20 \<le> j" "j \<le> i" for j
    using that i c [of j] by simp
  have m: "calculate_sma data 20 ! i = Num (sum_list (map c [i + 1 - 20..<i + 1]) / real 20)"
    unfolding calculate_sma_def by (rule roll_mean_num_window) (use i num in simp_all)
  obtain s where s: "roll_std 20 (map Close data) ! i = Num s"
    using roll_std_num_window [of i "map Close data" 20 c] i num by auto
  have len: "length (calculate_sma data 20) = length data"
      "length (roll_std 20 (map Close data)) = length data"
    by (simp_all add: calculate_sma_def length_roll_mean length_roll_std)
  show ?thesis
    using i len m s by (simp add: calculate_bollinger_bands_def Let_def fsub_def)
qed

text \<open>
  C7. The middle band is the 20-bar SMA, the upper and lower bands are the middle band plus and
  minus 2 rolling sample standard deviations of the close; at every index where the three
  bands are defined (not NaN), lower \<open>\<le>\<close> middle \<open>\<le>\<close> upper.
\<close>

theorem bollinger_bands_ordered:
  "case calculate_bollinger_bands data 20 2 of (upper, middle, lower) \<Rightarrow>
     middle = calculate_sma data 20 \<and>
     upper = map2 (\<lambda>m s. fadd m (fmul s (Num 2))) middle (roll_std 20 (map Close data)) \<and>
     lower = map2 (\<lambda>m s. fsub m (fmul s (Num 2))) middle (roll_std 20 (map Close data)) \<and>
     (\<forall>i. i < length data \<and> upper ! i \<noteq> NaN \<and> middle ! i \<noteq> NaN \<and> lower ! i \<noteq> NaN \<longrightarrow>
        fle (lower ! i) (middle ! i) \<and> fle (middle ! i) (upper ! i))"
proof -
  let ?sma = "calculate_sma data 20" and ?std = "roll_std 20 (map Close data)"
  have bands: "calculate_bollinger_bands data 20 2 =
      (map2 (\<lambda>m s. fadd m (fmul s (Num 2))) ?sma ?std, ?sma,
       map2 (\<lambda>m s. fsub m (fmul s (Num 2))) ?sma ?std)"
    by (simp add: calculate_bollinger_bands_def Let_def)
  have len: "length ?sma = length data" "length ?std = length data"
    by (simp_all add: calculate_sma_def length_roll_mean length_roll_std)
  have order: "fle (map2 (\<lambda>m s. fsub m (fmul s (Num 2))) ?sma ?std ! i) (?sma ! i) \<and>
               fle (?sma ! i) (map2 (\<lambda>m s. fadd m (fmul s (Num 2))) ?sma ?std ! i)"
    if h: "i < length data \<and> map2 (\<lambda>m s. fadd m (fmul s (Num 2))) ?sma ?std ! i \<noteq> NaN \<and>
           ?sma ! i \<noteq> NaN \<and> map2 (\<lambda>m s. fsub m (fmul s (Num 2))) ?sma ?std ! i \<noteq> NaN" for i
  proof -
    have i: "i < length data" using h by simp
    have u: "map2 (\<lambda>m s. fadd m (fmul s (Num 2))) ?sma ?std ! i = fadd (?sma ! i) (fmul (?std ! i) (Num 2))"
      using i len by simp
    have l: "map2 (\<lambda>m s. fsub m (fmul s (Num 2))) ?sma ?std ! i = fsub (?sma ! i) (fmul (?std ! i) (Num 2))"
      using i len by simp
    have m: "?sma ! i = NaN \<or> (\<exists>a. ?sma ! i = Num a)"
      unfolding calculate_sma_def by (rule roll_mean_cases) (simp add: i)
    have s: "?std ! i = NaN \<or> (\<exists>b. ?std ! i = Num b \<and> 0 \<le> b)"
      by (rule roll_std_nonneg) (simp add: i)
    show ?thesis
      unfolding u l by (rule band_order [OF m s]) (use h u l in simp_all)
  qed
  show ?thesis
    unfolding bands prod.case using order by blast
qed

theorem bollinger_bands_ordered_witness:
  "case calculate_bollinger_bands (map (\<lambda>d. mk_bar d (100 + real d) 10) [0..<20]) 20 2 of
     (upper, middle, lower) \<Rightarrow>
       upper ! 19 \<noteq> NaN \<and> middle ! 19 \<noteq> NaN \<and> lower ! 19 \<noteq> NaN \<and>
       fle (lower ! 19) (middle ! 19) \<and> fle (middle ! 19) (upper ! 19)"
proof -
  let ?data = "map (\<lambda>d. mk_bar d (100 + real d) 10) [0..<20]"
  have "case calculate_bollinger_bands ?data 20 2 of (upper, middle, lower) \<Rightarrow>
           upper ! 19 \<noteq> NaN \<and> middle ! 19 \<noteq> NaN \<and> lower ! 19 \<noteq> NaN"
    by (rule bands_defined [where c = "\<lambda>j. 100 + real j"]) (simp_all add: mk_bar_def)
  then show ?thesis
    using bollinger_bands_ordered [of ?data] by (auto split: prod.splits)
qed

section \<open>The market summary\<close>

lemma mk_row_simps:
  "Close (mk_row c r vr) = c" "Daily_Return (mk_row c r vr) = r" "Volume_Ratio (mk_row c r vr) = vr"
  "Volume (mk_row c r vr) = 10"
  by (simp_all add: mk_row_def mk_bar_def bar.defs row.defs)

lemma flt_irrefl: "\<not> flt x x"
  by (cases x) simp_all

lemma flt_asym: "flt x y \<Longrightarrow> \<not> flt y x"
  by (cases x; cases y) simp_all

lemma flt_trans: "flt x y \<Longrightarrow> flt y z \<Longrightarrow> flt x z"
  by (cases x; cases y; cases z) simp_all

lemma gainer_not_loser: "fgt r (Num (2 / 100)) \<Longrightarrow> \<not> flt r (Num (- (2 / 100)))"
  by (cases r) (simp_all add: fgt_def)

lemma gainer_not_loser': "fgt r (Num (1 / 50)) \<Longrightarrow> \<not> flt r (Num (- (1 / 50)))"
  by (cases r) (simp_all add: fgt_def)

lemma summary_step_skip: "\<not> has_snapshot (snd e) \<Longrightarrow> summary_step cfg e s = s"
  by (cases e) (auto simp: summary_step_def has_snapshot_def Let_def)

lemma summary_step_gainers:
  "gainers (summary_step cfg e s) = gainers s @ (if is_gainer e then [mk_info e] else [])"
proof (cases "has_snapshot (snd e)")
  case False
  then show ?thesis by (simp add: summary_step_skip is_gainer_def)
next
  case True
  obtain symbol data where e: "e = (symbol, data)" by (cases e)
  have d: "data \<noteq> []" "\<not> isna (Daily_Return (last data))" "\<not> isna (Close (last data))"
    using True e by (simp_all add: has_snapshot_def)
  show ?thesis
    unfolding e summary_step_def Let_def prod.case
    using d True e by (simp add: is_gainer_def mk_info_def)
qed

lemma summary_step_losers:
  "losers (summary_step cfg e s) = losers s @ (if is_loser e then [mk_info e] else [])"
proof (cases "has_snapshot (snd e)")
  case False
  then show ?thesis by (simp add: summary_step_skip is_loser_def)
next
  case True
  obtain symbol data where e: "e = (symbol, data)" by (cases e)
  have d: "data \<noteq> []" "\<not> isna (Daily_Return (last data))" "\<not> isna (Close (last data))"
    using True e by (simp_all add: has_snapshot_def)
  show ?thesis
    unfolding e summary_step_def Let_def prod.case
    using d True e by (simp add: is_loser_def mk_info_def gainer_not_loser')
qed

lemma summary_step_high_volume:
  "high_volume (summary_step cfg e s) =
     high_volume s @ (if is_high_volume cfg e then [mk_info e] else [])"
proof (cases "has_snapshot (snd e)")
  case False
  then show ?thesis by (simp add: summary_step_skip is_high_volume_def)
next
  case True
  obtain symbol data where e: "e = (symbol, data)" by (cases e)
  have d: "data \<noteq> []" "\<not> isna (Daily_Return (last data))" "\<not> isna (Close (last data))"
    using True e by (simp_all add: has_snapshot_def)
  show ?thesis
    unfolding e summary_step_def Let_def prod.case
    using d True e by (simp add: is_high_volume_def mk_info_def)
qed

lemmas summary_step_lists = summary_step_gainers summary_step_losers summary_step_high_volume

lemma fold_summary_step_lists:
  "gainers (fold (summary_step cfg) dd s) = gainers s @ map mk_info (filter is_gainer dd)"
  "losers (fold (summary_step cfg) dd s) = losers s @ map mk_info (filter is_loser dd)"
  "high_volume (fold (summary_step cfg) dd s) = high_volume s @ map mk_info (filter (is_high_volume cfg) dd)"
  by (induction dd arbitrary: s, simp_all add: summary_step_lists)+

lemma collect_summary_lists:
  "gainers (collect_summary cfg today dd) = map mk_info (filter is_gainer dd)"
  "losers (collect_summary cfg today dd) = map mk_info (filter is_loser dd)"
  "high_volume (collect_summary cfg today dd) = map mk_info (filter (is_high_volume cfg) dd)"
  by (simp_all add: collect_summary_def fold_summary_step_lists)

lemma mset_insort_py: "mset (insort_py key x xs) = add_mset x (mset xs)"
  by (induction xs) simp_all

lemma mset_foldr_insort_py: "mset (foldr (insort_py key) xs []) = mset xs"
  by (induction xs) (simp_all add: mset_insort_py)

lemma mset_sorted_py: "mset (sorted_py key reverse xs) = mset xs"
  by (simp add: sorted_py_def mset_foldr_insort_py)

lemma set_sorted_py: "set (sorted_py key reverse xs) = set xs"
  by (metis mset_sorted_py set_mset_mset)

lemma symbol_of_info:
  assumes "distinct (map fst dd)" and "(symbol, data) \<in> set dd"
  shows "symbol \<in> si_symbol ` set (map mk_info (filter P dd)) \<longleftrightarrow> P (symbol, data)"
proof
  assume "symbol \<in> si_symbol ` set (map mk_info (filter P dd))"
  then obtain e where e: "e \<in> set dd" "P e" "fst e = symbol"
    by (auto simp: mk_info_def)
  then have "e = (symbol, data)"
    using assms by (metis eq_key_imp_eq_value prod.collapse)
  then show "P (symbol, data)" using e by simp
next
  assume "P (symbol, data)"
  then have "mk_info (symbol, data) \<in> set (map mk_info (filter P dd))" using assms(2) by simp
  moreover have "si_symbol (mk_info (symbol, data)) = symbol" by (simp add: mk_info_def)
  ultimately show "symbol \<in> si_symbol ` set (map mk_info (filter P dd))" by (metis image_eqI)
qed

text \<open>
  C2. A symbol whose last bar has a defined daily return (and a defined close, the other guard
  of the loop) is put among the gainers iff the return is strictly above +2%, and among the
  losers iff it is strictly below -2%; it is never in both, and a return of exactly +2% or
  exactly -2% puts it in neither. The lists of the final summary only hold such entries.
\<close>

theorem gainer_loser_classification:
  assumes "distinct (map fst data_dict)" and "(symbol, data) \<in> set data_dict"
    and "data \<noteq> []" and "\<not> isna (Daily_Return (last data))" and "\<not> isna (Close (last data))"
  shows "(symbol \<in> si_symbol ` set (gainers (collect_summary cfg today data_dict)) \<longleftrightarrow>
            fgt (Daily_Return (last data)) (Num (2 / 100))) \<and>
         (symbol \<in> si_symbol ` set (losers (collect_summary cfg today data_dict)) \<longleftrightarrow>
            flt (Daily_Return (last data)) (Num (- (2 / 100)))) \<and>
         \<not> (symbol \<in> si_symbol ` set (gainers (collect_summary cfg today data_dict)) \<and>
            symbol \<in> si_symbol ` set (losers (collect_summary cfg today data_dict))) \<and>
         (Daily_Return (last data) = Num (2 / 100) \<or> Daily_Return (last data) = Num (- (2 / 100)) \<longrightarrow>
            symbol \<notin> si_symbol ` set (gainers (collect_summary cfg today data_dict)) \<and>
            symbol \<notin> si_symbol ` set (losers (collect_summary cfg today data_dict))) \<and>
         set (gainers (generate_market_summary cfg today data_dict))
           \<subseteq> set (gainers (collect_summary cfg today data_dict)) \<and>
         set (losers (generate_market_summary cfg today data_dict))
           \<subseteq> set (losers (collect_summary cfg today data_dict))"
proof -
  have snap: "has_snapshot data" using assms(3-5) by (simp add: has_snapshot_def)
  have g: "symbol \<in> si_symbol ` set (gainers (collect_summary cfg today data_dict)) \<longleftrightarrow>
            fgt (Daily_Return (last data)) (Num (2 / 100))"
    unfolding collect_summary_lists symbol_of_info [OF assms(1,2)]
    using snap by (simp add: is_gainer_def)
  have l: "symbol \<in> si_symbol ` set (losers (collect_summary cfg today data_dict)) \<longleftrightarrow>
            flt (Daily_Return (last data)) (Num (- (2 / 100)))"
    unfolding collect_summary_lists symbol_of_info [OF assms(1,2)]
    using snap by (simp add: is_loser_def)
  have excl: "\<not> (fgt (Daily_Return (last data)) (Num (2 / 100)) \<and>
                 flt (Daily_Return (last data)) (Num (- (2 / 100))))"
    using gainer_not_loser by blast
  have bound: "Daily_Return (last data) = Num (2 / 100) \<or> Daily_Return (last data) = Num (- (2 / 100)) \<Longrightarrow>
      \<not> fgt (Daily_Return (last data)) (Num (2 / 100)) \<and>
      \<not> flt (Daily_Return (last data)) (Num (- (2 / 100)))"
    by (auto simp: fgt_def)
  have sg: "set (gainers (generate_market_summary cfg today data_dict))
           \<subseteq> set (gainers (collect_summary cfg today data_dict))"
    using set_take_subset [of 10 "sorted_py si_change True (gainers (collect_summary cfg today data_dict))"]
    by (simp add: generate_market_summary_def Let_def set_sorted_py)
  have sl: "set (losers (generate_market_summary cfg today data_dict))
           \<subseteq> set (losers (collect_summary cfg today data_dict))"
    using set_take_subset [of 10 "sorted_py si_change False (losers (collect_summary cfg today data_dict))"]
    by (simp add: generate_market_summary_def Let_def set_sorted_py)
  show ?thesis
    unfolding g l using excl bound sg sl by blast
qed

theorem gainer_loser_classification_witness:
  "''AAA'' \<in> si_symbol ` set (gainers (collect_summary
       \<lparr>volume_multiplier = None, price_change_threshold = None\<rparr> ''2024-01-02''
       [(''AAA'', [mk_row (Num 103) (Num (3 / 100)) NaN]),
        (''BBB'', [mk_row (Num 102) (Num (2 / 100)) NaN])])) \<and>
   ''BBB'' \<notin> si_symbol ` set (gainers (collect_summary
       \<lparr>volume_multiplier = None, price_change_threshold = None\<rparr> ''2024-01-02''
       [(''AAA'', [mk_row (Num 103) (Num (3 / 100)) NaN]),
        (''BBB'', [mk_row (Num 102) (Num (2 / 100)) NaN])])) \<and>
   ''BBB'' \<notin> si_symbol ` set (losers (collect_summary
       \<lparr>volume_multiplier = None, price_change_threshold = None\<rparr> ''2024-01-02''
       [(''AAA'', [mk_row (Num 103) (Num (3 / 100)) NaN]),
        (''BBB'', [mk_row (Num 102) (Num (2 / 100)) NaN])]))"
  using gainer_loser_classification [of
      "[(''AAA'', [mk_row (Num 103) (Num (3 / 100)) NaN]),
        (''BBB'', [mk_row (Num 102) (Num (2 / 100)) NaN])]"
      "''AAA''" "[mk_row (Num 103) (Num (3 / 100)) NaN]"
      "\<lparr>volume_multiplier = None, price_change_threshold = None\<rparr>" "''2024-01-02''"]
    gainer_loser_classification [of
      "[(''AAA'', [mk_row (Num 103) (Num (3 / 100)) NaN]),
        (''BBB'', [mk_row (Num 102) (Num (2 / 100)) NaN])]"
      "''BBB''" "[mk_row (Num 102) (Num (2 / 100)) NaN]"
      "\<lparr>volume_multiplier = None, price_change_threshold = None\<rparr>" "''2024-01-02''"]
  by (simp add: mk_row_simps isna_def fgt_def)

































section \<open>Trailing return statistics of the narrative\<close>











lemma set_sort_key_Date: "set (sort_key Date bars) = set bars"
  by simp




end
